theory Spec2Isabelle
  imports Main "HOL-Library.Sublist"
begin

section \<open>Python values and exceptions\<close>

text \<open>
  The crew's result and the metrics taxonomy are untyped Python objects. Dictionaries keep
  their insertion order, so a dictionary is an association list (its keys are pairwise
  different in Python). \<open>PObj\<close> stands for any other object, named by its class.
\<close>

datatype pyval =
    PNone
  | PBool bool
  | PInt int
  | PStr string
  | PList "pyval list"
  | PDict "(string \<times> pyval) list"
  | PObj string

text \<open>
  Exceptions: \<open>ExternalError\<close> is whatever a library call raises (with its message);
  the other two are the interpreter's own, raised by an attribute access on the wrong
  kind of object and by iterating over a value that is not iterable.
\<close>

datatype error = ExternalError string | AttributeError | TypeError

fun is_dict :: "pyval \<Rightarrow> bool" where
  "is_dict (PDict kvs) = True"
| "is_dict v = False"

fun items :: "pyval \<Rightarrow> error + (string \<times> pyval) list" where
  "items (PDict kvs) = Inr kvs"
| "items v = Inl AttributeError"

fun py_iter :: "pyval \<Rightarrow> error + pyval list" where
  "py_iter (PList xs) = Inr xs"
| "py_iter (PDict kvs) = Inr (map (\<lambda>kv. PStr (fst kv)) kvs)"
| "py_iter (PStr s) = Inr (map (\<lambda>c. PStr [c]) s)"
| "py_iter v = Inl TypeError"

fun collect :: "('a \<Rightarrow> error + 'b list) \<Rightarrow> 'a list \<Rightarrow> error + 'b list" where
  "collect f [] = Inr []"
| "collect f (x # xs) =
     (case f x of
        Inl e \<Rightarrow> Inl e
      | Inr ys \<Rightarrow> (case collect f xs of Inl e \<Rightarrow> Inl e | Inr zs \<Rightarrow> Inr (ys @ zs)))"

section \<open>agents/esg\_crew.py\<close>

text \<open>
  \<open>ESGAnalysisCrew\<close>. The agents, tasks and the crew are objects of the CrewAI library;
  the only thing \<open>run\<close> sees of them is what \<open>self.crew.kickoff(inputs=...)\<close> gives back
  (or raises), so that call is a parameter, as is Python's \<open>str\<close>, used by the f-string
  of the warning (\<open>str\<close> and \<open>print\<close> are taken not to raise). The console is the list
  of the lines printed so far.
\<close>

type_synonym property = "(string \<times> string) list"

record crew_env =
  kickoff :: "string \<Rightarrow> property list \<Rightarrow> error + pyval"
  py_str :: "pyval \<Rightarrow> string"

record ESGAnalysisCrew =
  investor_name :: string

definition create_basic_metrics_structure :: pyval where
  "create_basic_metrics_structure =
     PDict
       [(''Environmental'',
           PDict [(''Energy'',
             PList [PDict [(''name'', PStr ''Total Energy Consumption''), (''unit'', PStr ''kWh'')]])]),
        (''Social'',
           PDict [(''Employees'',
             PList [PDict [(''name'', PStr ''Total Employees''), (''unit'', PStr ''count'')]])]),
        (''Governance'',
           PDict [(''Board'',
             PList [PDict [(''name'', PStr ''Board Diversity''), (''unit'', PStr ''%'')]])])]"

definition run ::
  "crew_env \<Rightarrow> ESGAnalysisCrew \<Rightarrow> property list \<Rightarrow> string list \<Rightarrow> (error + pyval) \<times> string list"
where
  "run env self properties console =
     (case kickoff env (investor_name self) properties of
        Inl e \<Rightarrow> (Inl e, console)
      | Inr result \<Rightarrow>
          if is_dict result then (Inr result, console)
          else
            (Inr create_basic_metrics_structure,
             console @
               [''Warning: Crew output was not a dictionary. Raw output: '' @ py_str env result]))"

subsection \<open>Reading a taxonomy\<close>

text \<open>
  The taxonomy is read the way \<open>ESGFormGenerator\<close> walks it (agents/excel\_generator.py):
  \<^verbatim>\<open>for category, subcategories in metrics_data.items():\<close>
  \<^verbatim>\<open>    for subcategory, metrics in subcategories.items():\<close>
  \<^verbatim>\<open>        for metric in metrics:\<close>
\<close>

definition subcategory_metrics :: "pyval \<Rightarrow> error + (string \<times> pyval list) list" where
  "subcategory_metrics subcategories =
     (case items subcategories of
        Inl e \<Rightarrow> Inl e
      | Inr subs \<Rightarrow>
          collect
            (\<lambda>sub. case py_iter (snd sub) of Inl e \<Rightarrow> Inl e | Inr metrics \<Rightarrow> Inr [(fst sub, metrics)])
            subs)"

text \<open>The metrics of a taxonomy, as (category, subcategory, metrics of that subcategory).\<close>

definition taxonomy_metrics :: "pyval \<Rightarrow> error + (string \<times> string \<times> pyval list) list" where
  "taxonomy_metrics metrics_data =
     (case items metrics_data of
        Inl e \<Rightarrow> Inl e
      | Inr cats \<Rightarrow>
          collect
            (\<lambda>cat. case subcategory_metrics (snd cat) of
               Inl e \<Rightarrow> Inl e
             | Inr subs \<Rightarrow> Inr (map (\<lambda>sub. (fst cat, fst sub, snd sub)) subs))
            cats)"

definition metric_records :: "pyval \<Rightarrow> error + pyval list" where
  "metric_records metrics_data =
     (case taxonomy_metrics metrics_data of
        Inl e \<Rightarrow> Inl e
      | Inr subs \<Rightarrow> Inr (concat (map (\<lambda>sub. snd (snd sub)) subs)))"

text \<open>The field names of a metric record; a value that is not a dictionary has none.\<close>

fun field_names :: "pyval \<Rightarrow> string list" where
  "field_names (PDict kvs) = map fst kvs"
| "field_names v = []"

definition has_field :: "pyval \<Rightarrow> string \<Rightarrow> bool" where
  "has_field metric f = (f \<in> set (field_names metric))"

definition carries_all_five_fields :: "pyval \<Rightarrow> bool" where
  "carries_all_five_fields metric =
     (has_field metric ''name'' \<and> has_field metric ''description'' \<and> has_field metric ''unit''
      \<and> has_field metric ''frequency'' \<and> has_field metric ''data_type'')"

text \<open>
  The comparison of metric names that the specification asks of a taxonomy ("unique,
  case-insensitive compare"); the source has no such comparison. \<open>str.lower\<close>, on ASCII
  letters.
\<close>

definition ascii_lower :: "char \<Rightarrow> char" where
  "ascii_lower c =
     (case map_of (zip ''ABCDEFGHIJKLMNOPQRSTUVWXYZ'' ''abcdefghijklmnopqrstuvwxyz'') c of
        None \<Rightarrow> c
      | Some l \<Rightarrow> l)"

definition spec_names_equal_ignoring_case :: "string \<Rightarrow> string \<Rightarrow> bool" where
  "spec_names_equal_ignoring_case a b = (map ascii_lower a = map ascii_lower b)"

subsection \<open>Crews used as examples\<close>

definition crew_blackrock :: ESGAnalysisCrew where
  "crew_blackrock = \<lparr>investor_name = ''BlackRock''\<rparr>"

definition render :: "pyval \<Rightarrow> string" where
  "render v = (case v of PStr s \<Rightarrow> s | _ \<Rightarrow> ''<object>'')"

text \<open>A crew whose last task answers in prose, and one that answers with a given object.\<close>

definition env_prose :: crew_env where
  "env_prose = \<lparr>kickoff = (\<lambda>name props. Inr (PStr ''Here are the metrics you asked for'')),
                 py_str = render\<rparr>"

definition env_returning :: "pyval \<Rightarrow> crew_env" where
  "env_returning v = \<lparr>kickoff = (\<lambda>name props. Inr v), py_str = render\<rparr>"

definition scope1_regulatory :: pyval where
  "scope1_regulatory = PDict [(''name'', PStr ''Scope 1 Emissions''), (''unit'', PStr ''tCO2e'')]"

definition scope1_framework :: pyval where
  "scope1_framework = PDict [(''name'', PStr ''scope 1 emissions''), (''unit'', PStr '''')]"

definition taxonomy_with_duplicate :: pyval where
  "taxonomy_with_duplicate =
     PDict [(''Environmental'',
       PDict [(''Emissions'', PList [scope1_regulatory, scope1_framework])])]"

section \<open>utils/document\_loader.py\<close>

text \<open>
  \<open>DocumentIndexer\<close>. Loading, splitting, embedding and the vector store belong to
  LangChain and Chroma; each call the class makes to them is a parameter that returns a
  value or raises. \<open>'s\<close> is the type of a vector store handle.
\<close>

text \<open>
  A document or chunk. Its text is a list of characters, one \<open>char\<close> for one character
  of the Python string, so that \<open>length\<close> is Python's \<open>len\<close>.
\<close>

record document =
  page_content :: string
  metadata :: "(string \<times> string) list"

record splitter_config =
  chunk_size :: nat
  chunk_overlap :: nat
  separators :: "string list"

record 's indexer_env =
  getenv :: "string \<Rightarrow> string option"
  directory_load :: "string \<Rightarrow> string \<Rightarrow> error + document list"
  split_documents :: "splitter_config \<Rightarrow> document list \<Rightarrow> error + document list"
  from_documents :: "document list \<Rightarrow> string \<Rightarrow> error + 's"
  similarity_search :: "'s \<Rightarrow> string \<Rightarrow> int \<Rightarrow> error + document list"

text \<open>
  The calls made to the libraries, in the order they are made. \<open>FromDocuments\<close> is the
  one call that embeds chunks; it is recorded with the number of chunks it is given.
\<close>

datatype event =
    DirectoryLoad string string
  | SplitDocuments nat nat nat
  | FromDocuments nat string
  | Persist string
  | ChromaOpen string

text \<open>
  Modelled from the spec: the persisted store of section 6, "load/save by location".
  \<open>persisted w p\<close> is the store found at path \<open>p\<close>, and \<open>None\<close> when nothing exists at
  \<open>p\<close>, which is what \<open>os.path.exists\<close> asks. Whatever exists at a path is a store to
  Chroma, possibly one without chunks; opening a location gives the store found there,
  and persisting a store puts it there.
\<close>

record 's world =
  persisted :: "string \<Rightarrow> 's option"
  trace :: "event list"

definition record_call :: "event \<Rightarrow> 's world \<Rightarrow> 's world" where
  "record_call ev w = w\<lparr>trace := trace w @ [ev]\<rparr>"

record 's DocumentIndexer =
  persist_directory :: string
  vectorstore :: "'s option"

definition newline :: char where
  "newline = CHR 0x0A"

definition text_splitter :: splitter_config where
  "text_splitter =
     \<lparr>chunk_size = 1000, chunk_overlap = 200,
      separators = [[newline, newline], [newline], '' '', []]\<rparr>"

definition index_documents ::
  "'s indexer_env \<Rightarrow> 's DocumentIndexer \<Rightarrow> 's world \<Rightarrow> (error + 's DocumentIndexer) \<times> 's world"
where
  "index_documents env self w0 =
     (let w1 = record_call (DirectoryLoad ''./data/regulations'' ''**/*.pdf'') w0 in
      case directory_load env ''./data/regulations'' ''**/*.pdf'' of
        Inl e \<Rightarrow> (Inl e, w1)
      | Inr reg_docs \<Rightarrow>
     (let w2 = record_call (DirectoryLoad ''./data/frameworks'' ''**/*.pdf'') w1 in
      case directory_load env ''./data/frameworks'' ''**/*.pdf'' of
        Inl e \<Rightarrow> (Inl e, w2)
      | Inr framework_docs \<Rightarrow>
     (let all_docs = reg_docs @ framework_docs;
          w3 = record_call (SplitDocuments (chunk_size text_splitter) (chunk_overlap text_splitter)
                       (length all_docs)) w2 in
      case split_documents env text_splitter all_docs of
        Inl e \<Rightarrow> (Inl e, w3)
      | Inr texts \<Rightarrow>
     (let w4 = record_call (FromDocuments (length texts) (persist_directory self)) w3 in
      case from_documents env texts (persist_directory self) of
        Inl e \<Rightarrow> (Inl e, w4)
      | Inr vs \<Rightarrow>
          (Inr (self\<lparr>vectorstore := Some vs\<rparr>),
           record_call (Persist (persist_directory self))
             (w4\<lparr>persisted := (persisted w4)(persist_directory self \<mapsto> vs)\<rparr>))))))"




text \<open>\<open>sep.join(parts)\<close> of Python.\<close>

fun join :: "string \<Rightarrow> string list \<Rightarrow> string" where
  "join sep [] = []"
| "join sep [x] = x"
| "join sep (x # y # ys) = x @ sep @ join sep (y # ys)"

definition search :: "'s indexer_env \<Rightarrow> 's DocumentIndexer \<Rightarrow> string \<Rightarrow> int \<Rightarrow> error + string" where
  "search env self query k =
     (case vectorstore self of
        None \<Rightarrow> Inl AttributeError
      | Some vs \<Rightarrow>
          (case similarity_search env vs query k of
             Inl e \<Rightarrow> Inl e
           | Inr results \<Rightarrow> Inr (join [newline, newline] (map page_content results))))"

text \<open>\<open>k\<close> is 5 when the caller gives none.\<close>

definition search_default :: "'s indexer_env \<Rightarrow> 's DocumentIndexer \<Rightarrow> string \<Rightarrow> error + string" where
  "search_default env self query = search env self query 5"

subsection \<open>An environment used as an example\<close>

text \<open>
  A small file system and simple stand-ins for the libraries, to run the indexer on. A
  file is (directory, name, text), the text being \<open>None\<close> when the file cannot be parsed
  as a PDF. The loader keeps the files of its directory that its glob selects and parses
  them in order; like LangChain's \<open>DirectoryLoader\<close> with the arguments the source
  gives it, it raises at the first file that fails to parse.
\<close>

type_synonym example_file = "string \<times> string \<times> string option"

definition glob_selects :: "string \<Rightarrow> string \<Rightarrow> bool" where
  "glob_selects glob name =
     (if glob = ''**/*.pdf'' then drop (length name - 4) name = ''.pdf'' else True)"

fun load_files :: "example_file list \<Rightarrow> error + document list" where
  "load_files [] = Inr []"
| "load_files (f # fs) =
     (case snd (snd f) of
        None \<Rightarrow> Inl (ExternalError (fst (snd f)))
      | Some text \<Rightarrow>
          (case load_files fs of
             Inl e \<Rightarrow> Inl e
           | Inr docs \<Rightarrow>
               Inr (\<lparr>page_content = text, metadata = [(''source'', fst (snd f))]\<rparr> # docs)))"

definition example_directory_load ::
  "example_file list \<Rightarrow> string \<Rightarrow> string \<Rightarrow> error + document list"
where
  "example_directory_load files dir glob =
     load_files (filter (\<lambda>f. fst f = dir \<and> glob_selects glob (fst (snd f))) files)"

text \<open>A splitter that cuts windows of \<open>chunk_size\<close> characters, \<open>chunk_overlap\<close> of them shared.\<close>

definition windows :: "nat \<Rightarrow> nat \<Rightarrow> string \<Rightarrow> string list" where
  "windows n ov s =
     (if n \<le> ov then [take n s]
      else map (\<lambda>i. take n (drop (i * (n - ov)) s)) [0 ..< Suc ((length s - 1) div (n - ov))])"

definition example_split :: "splitter_config \<Rightarrow> document list \<Rightarrow> error + document list" where
  "example_split cfg docs =
     Inr (concat (map (\<lambda>d. map (\<lambda>s. d\<lparr>page_content := s\<rparr>)
                              (windows (chunk_size cfg) (chunk_overlap cfg) (page_content d)))
                      docs))"

text \<open>The store is the list of its chunks, and answers a query with the first \<open>k\<close> of them.\<close>

definition example_env :: "example_file list \<Rightarrow> (document list) indexer_env" where
  "example_env files =
     \<lparr>getenv = (\<lambda>name. None),
      directory_load = example_directory_load files,
      split_documents = example_split,
      from_documents = (\<lambda>texts dir. Inr texts),
      similarity_search = (\<lambda>vs query k. Inr (take (nat k) vs))\<rparr>"

definition example_files :: "example_file list" where
  "example_files =
     [(''./data/regulations'', ''csrd.pdf'', Some ''Report Scope 1 emissions in tCO2e.''),
      (''./data/frameworks'', ''blackrock.pdf'', Some ''Report board diversity.'')]"

definition example_files_and_notes :: "example_file list" where
  "example_files_and_notes =
     [(''./data/regulations'', ''csrd.pdf'', Some ''Report Scope 1 emissions in tCO2e.''),
      (''./data/regulations'', ''notes.txt'', Some ''draft''),
      (''./data/frameworks'', ''readme.md'', None),
      (''./data/frameworks'', ''blackrock.pdf'', Some ''Report board diversity.''),
      (''./data/archive'', ''old.pdf'', Some ''Superseded.'')]"

definition example_files_one_malformed :: "example_file list" where
  "example_files_one_malformed =
     [(''./data/regulations'', ''csrd.pdf'', Some ''Report Scope 1 emissions in tCO2e.''),
      (''./data/regulations'', ''scan.pdf'', None),
      (''./data/frameworks'', ''blackrock.pdf'', Some ''Report board diversity.'')]"

definition example_files_framework_malformed :: "example_file list" where
  "example_files_framework_malformed =
     [(''./data/regulations'', ''csrd.pdf'', Some ''Report Scope 1 emissions in tCO2e.''),
      (''./data/frameworks'', ''scan.pdf'', None),
      (''./data/frameworks'', ''blackrock.pdf'', Some ''Report board diversity.'')]"

text \<open>The directories and globs of the calls to the loader, among the calls recorded.\<close>

definition directory_loads :: "event list \<Rightarrow> (string \<times> string) list" where
  "directory_loads evs =
     concat (map (\<lambda>ev. case ev of DirectoryLoad dir glob \<Rightarrow> [(dir, glob)] | _ \<Rightarrow> []) evs)"

definition example_chunks :: "document list" where
  "example_chunks =
     [\<lparr>page_content = ''Report Scope 1 emissions in tCO2e.'', metadata = [(''source'', ''csrd.pdf'')]\<rparr>,
      \<lparr>page_content = ''Report board diversity.'', metadata = [(''source'', ''blackrock.pdf'')]\<rparr>]"

definition empty_world :: "'s world" where
  "empty_world = \<lparr>persisted = (\<lambda>p. None), trace = []\<rparr>"

definition new_indexer :: "'s DocumentIndexer" where
  "new_indexer = \<lparr>persist_directory = ''./chroma_db'', vectorstore = None\<rparr>"



section \<open>Properties of run\<close>

lemma run_not_dict:
  assumes "kickoff env (investor_name self) props = Inr result" and "\<not> is_dict result"
  shows "run env self props out =
    (Inr create_basic_metrics_structure,
     out @ [''Warning: Crew output was not a dictionary. Raw output: '' @ py_str env result])"
  using assms by (simp add: run_def)

lemma fallback_taxonomy_metrics:
  "taxonomy_metrics create_basic_metrics_structure =
     Inr [(''Environmental'', ''Energy'',
             [PDict [(''name'', PStr ''Total Energy Consumption''), (''unit'', PStr ''kWh'')]]),
          (''Social'', ''Employees'',
             [PDict [(''name'', PStr ''Total Employees''), (''unit'', PStr ''count'')]]),
          (''Governance'', ''Board'',
             [PDict [(''name'', PStr ''Board Diversity''), (''unit'', PStr ''%'')]])]"
  by (simp add: taxonomy_metrics_def create_basic_metrics_structure_def subcategory_metrics_def)

lemma fallback_metric_records:
  "metric_records create_basic_metrics_structure =
     Inr [PDict [(''name'', PStr ''Total Energy Consumption''), (''unit'', PStr ''kWh'')],
          PDict [(''name'', PStr ''Total Employees''), (''unit'', PStr ''count'')],
          PDict [(''name'', PStr ''Board Diversity''), (''unit'', PStr ''%'')]]"
  by (simp add: metric_records_def fallback_taxonomy_metrics)

lemma fallback_field_names:
  "field_names create_basic_metrics_structure = [''Environmental'', ''Social'', ''Governance'']"
  by (simp add: create_basic_metrics_structure_def)

subsection \<open>The fallback taxonomy\<close>

text \<open>
  C1. Whenever the crew's output is not a dictionary, \<open>run\<close> does not raise: it returns
  the fallback taxonomy, which is not empty and has the three categories Environmental,
  Social and Governance, in that order, each with one subcategory that holds one sample
  metric.
\<close>

theorem run_non_dict_returns_fallback:
  assumes "kickoff env (investor_name self) props = Inr result" and "\<not> is_dict result"
  shows "fst (run env self props out) = Inr create_basic_metrics_structure
    \<and> create_basic_metrics_structure \<noteq> PDict []
    \<and> taxonomy_metrics create_basic_metrics_structure =
        Inr [(''Environmental'', ''Energy'',
                [PDict [(''name'', PStr ''Total Energy Consumption''), (''unit'', PStr ''kWh'')]]),
             (''Social'', ''Employees'',
                [PDict [(''name'', PStr ''Total Employees''), (''unit'', PStr ''count'')]]),
             (''Governance'', ''Board'',
                [PDict [(''name'', PStr ''Board Diversity''), (''unit'', PStr ''%'')]])]"
proof -
  have "fst (run env self props out) = Inr create_basic_metrics_structure"
    using assms by (simp add: run_not_dict)
  moreover have "create_basic_metrics_structure \<noteq> PDict []"
    by (simp add: create_basic_metrics_structure_def)
  ultimately show ?thesis
    by (simp add: fallback_taxonomy_metrics)
qed

theorem run_non_dict_returns_fallback_witness:
  "kickoff env_prose (investor_name crew_blackrock) [] = Inr (PStr ''Here are the metrics you asked for'')
   \<and> \<not> is_dict (PStr ''Here are the metrics you asked for'')
   \<and> fst (run env_prose crew_blackrock [] []) = Inr create_basic_metrics_structure
   \<and> create_basic_metrics_structure \<noteq> PDict []"
proof -
  have h1: "kickoff env_prose (investor_name crew_blackrock) [] =
      Inr (PStr ''Here are the metrics you asked for'')"
    by (simp add: env_prose_def)
  have h2: "\<not> is_dict (PStr ''Here are the metrics you asked for'')"
    by simp
  show ?thesis
    using h1 h2 run_non_dict_returns_fallback [OF h1 h2, of "[]"] by simp
qed

text \<open>
  C9. A crew result that is a dictionary is returned as it is, whatever its shape, and
  nothing is printed: no fallback is substituted, not even for the empty dictionary.
\<close>

theorem run_dict_returned_unchanged:
  assumes "kickoff env (investor_name self) props = Inr result" and "is_dict result"
  shows "run env self props out = (Inr result, out)"
  using assms by (simp add: run_def)

theorem run_dict_returned_unchanged_witness:
  "is_dict (PDict [])
   \<and> run (env_returning (PDict [])) crew_blackrock [] [] = (Inr (PDict []), [])
   \<and> PDict [] \<noteq> create_basic_metrics_structure
   \<and> is_dict (PDict [(''categories'', PInt 3)])
   \<and> run (env_returning (PDict [(''categories'', PInt 3)])) crew_blackrock [] [] =
       (Inr (PDict [(''categories'', PInt 3)]), [])"
proof -
  have k: "kickoff (env_returning v) (investor_name crew_blackrock) [] = Inr v" for v
    by (simp add: env_returning_def)
  have d1: "is_dict (PDict [])" and d2: "is_dict (PDict [(''categories'', PInt 3)])"
    by simp_all
  show ?thesis
    using run_dict_returned_unchanged [OF k d1, of "[]"]
      run_dict_returned_unchanged [OF k d2, of "[]"]
    by (simp add: create_basic_metrics_structure_def)
qed

text \<open>
  C6 does not hold as stated: the value returned after a substitution is the bare
  fallback taxonomy, the same value that is returned when the crew itself answers with
  that dictionary, and its only keys are the three categories.
\<close>

theorem fallback_flag_counterexample:
  "fst (run env_prose crew_blackrock [] []) =
     fst (run (env_returning create_basic_metrics_structure) crew_blackrock [] [])
   \<and> \<not> is_dict (PStr ''Here are the metrics you asked for'')
   \<and> is_dict create_basic_metrics_structure
   \<and> field_names create_basic_metrics_structure = [''Environmental'', ''Social'', ''Governance'']"
  by (simp add: run_def env_prose_def env_returning_def create_basic_metrics_structure_def)

text \<open>
  C6, amended. When \<open>run\<close> substitutes the fallback taxonomy no error reaches the caller,
  and the substitution shows in one place only: a warning line printed to the console.
  The value returned is the fallback taxonomy itself, whose keys are the three categories.
\<close>

theorem run_fallback_only_warns:
  assumes "kickoff env (investor_name self) props = Inr result" and "\<not> is_dict result"
  shows "run env self props out =
      (Inr create_basic_metrics_structure,
       out @ [''Warning: Crew output was not a dictionary. Raw output: '' @ py_str env result])
    \<and> field_names create_basic_metrics_structure = [''Environmental'', ''Social'', ''Governance'']"
  using assms by (simp add: run_not_dict fallback_field_names)

theorem run_fallback_only_warns_witness:
  "\<not> is_dict (PStr ''Here are the metrics you asked for'')
   \<and> run env_prose crew_blackrock [] [] =
      (Inr create_basic_metrics_structure,
       [''Warning: Crew output was not a dictionary. Raw output: Here are the metrics you asked for''])"
proof -
  have h1: "kickoff env_prose (investor_name crew_blackrock) [] =
      Inr (PStr ''Here are the metrics you asked for'')"
    by (simp add: env_prose_def)
  have h2: "\<not> is_dict (PStr ''Here are the metrics you asked for'')"
    by simp
  show ?thesis
    using h2 run_fallback_only_warns [OF h1 h2, of "[]"]
    by (simp add: env_prose_def render_def)
qed

text \<open>
  C7 does not hold as stated, on the fallback taxonomy: its first metric record has
  a name and a unit, and no description, frequency or data type.
\<close>

theorem fallback_fields_counterexample:
  "fst (run env_prose crew_blackrock [] []) = Inr create_basic_metrics_structure
   \<and> metric_records create_basic_metrics_structure =
       Inr [PDict [(''name'', PStr ''Total Energy Consumption''), (''unit'', PStr ''kWh'')],
            PDict [(''name'', PStr ''Total Employees''), (''unit'', PStr ''count'')],
            PDict [(''name'', PStr ''Board Diversity''), (''unit'', PStr ''%'')]]
   \<and> \<not> carries_all_five_fields
         (PDict [(''name'', PStr ''Total Energy Consumption''), (''unit'', PStr ''kWh'')])
   \<and> \<not> has_field
         (PDict [(''name'', PStr ''Total Energy Consumption''), (''unit'', PStr ''kWh'')])
         ''description''"
  by (simp add: run_def env_prose_def fallback_metric_records carries_all_five_fields_def
      has_field_def)

text \<open>
  C7, amended. The taxonomy \<open>run\<close> returns is either the crew's dictionary, untouched (so
  its metric records carry the fields the crew gave them), or the fallback taxonomy, whose
  three metric records carry the two fields name and unit and no other.
\<close>

theorem run_metric_record_fields:
  assumes "kickoff env (investor_name self) props = Inr result"
  shows "fst (run env self props out) =
      Inr (if is_dict result then result else create_basic_metrics_structure)
    \<and> (case metric_records create_basic_metrics_structure of
         Inl e \<Rightarrow> False
       | Inr ms \<Rightarrow> length ms = 3 \<and> list_all (\<lambda>m. field_names m = [''name'', ''unit'']) ms)"
  using assms by (simp add: run_def fallback_metric_records)

theorem run_metric_record_fields_witness:
  "fst (run env_prose crew_blackrock [] []) = Inr create_basic_metrics_structure
   \<and> fst (run (env_returning taxonomy_with_duplicate) crew_blackrock [] []) =
       Inr taxonomy_with_duplicate"
proof -
  have h1: "kickoff env_prose (investor_name crew_blackrock) [] =
      Inr (PStr ''Here are the metrics you asked for'')"
    by (simp add: env_prose_def)
  have h2: "kickoff (env_returning taxonomy_with_duplicate) (investor_name crew_blackrock) [] =
      Inr taxonomy_with_duplicate"
    by (simp add: env_returning_def)
  show ?thesis
    using run_metric_record_fields [OF h1, of "[]"] run_metric_record_fields [OF h2, of "[]"]
    by (simp add: taxonomy_with_duplicate_def)
qed

subsection \<open>Consolidation\<close>

text \<open>
  C2 does not hold as stated: consolidation is a task given to the crew's language
  model, and the code merges nothing. When the crew answers with a taxonomy in which the
  subcategory Emissions holds "Scope 1 Emissions" (unit tCO2e) and "scope 1 emissions"
  (no unit), \<open>run\<close> returns that taxonomy with both metrics.
\<close>

theorem consolidation_merge_counterexample:
  "fst (run (env_returning taxonomy_with_duplicate) crew_blackrock [] []) =
     Inr taxonomy_with_duplicate
   \<and> taxonomy_metrics taxonomy_with_duplicate =
       Inr [(''Environmental'', ''Emissions'',
               [PDict [(''name'', PStr ''Scope 1 Emissions''), (''unit'', PStr ''tCO2e'')],
                PDict [(''name'', PStr ''scope 1 emissions''), (''unit'', PStr [])]])]
   \<and> spec_names_equal_ignoring_case ''Scope 1 Emissions'' ''scope 1 emissions''"
  by (simp add: run_def env_returning_def taxonomy_with_duplicate_def scope1_regulatory_def
      scope1_framework_def taxonomy_metrics_def subcategory_metrics_def
      spec_names_equal_ignoring_case_def ascii_lower_def)

text \<open>
  C2, amended. The code has no merge step of its own: whatever dictionary the crew's
  consolidation task gives, \<open>run\<close> returns it with the metrics of every (category,
  subcategory) as they were, in number and in order, and prints nothing.
\<close>

theorem run_keeps_crew_metrics:
  assumes "kickoff env (investor_name self) props = Inr result" and "is_dict result"
  shows "snd (run env self props out) = out
    \<and> (case fst (run env self props out) of
         Inl e \<Rightarrow> False
       | Inr t \<Rightarrow>
           taxonomy_metrics t = taxonomy_metrics result
           \<and> metric_records t = metric_records result)"
  using assms by (simp add: run_def)

theorem run_keeps_crew_metrics_witness:
  "is_dict taxonomy_with_duplicate
   \<and> snd (run (env_returning taxonomy_with_duplicate) crew_blackrock [] []) = []
   \<and> (case fst (run (env_returning taxonomy_with_duplicate) crew_blackrock [] []) of
        Inl e \<Rightarrow> False
      | Inr t \<Rightarrow>
          taxonomy_metrics t =
            Inr [(''Environmental'', ''Emissions'', [scope1_regulatory, scope1_framework])])"
proof -
  have h1: "kickoff (env_returning taxonomy_with_duplicate) (investor_name crew_blackrock) [] =
      Inr taxonomy_with_duplicate"
    by (simp add: env_returning_def)
  have h2: "is_dict taxonomy_with_duplicate"
    by (simp add: taxonomy_with_duplicate_def)
  have m: "taxonomy_metrics taxonomy_with_duplicate =
      Inr [(''Environmental'', ''Emissions'', [scope1_regulatory, scope1_framework])]"
    by (simp add: taxonomy_with_duplicate_def taxonomy_metrics_def subcategory_metrics_def)
  show ?thesis
    using h2 m run_keeps_crew_metrics [OF h1 h2, of "[]"]
    by (simp split: sum.splits)
qed

section \<open>Properties of the document indexer\<close>

lemma index_documents_Inr:
  "index_documents env self w = (Inr self', w') \<longleftrightarrow>
     (\<exists>reg fw texts vs.
        directory_load env ''./data/regulations'' ''**/*.pdf'' = Inr reg
        \<and> directory_load env ''./data/frameworks'' ''**/*.pdf'' = Inr fw
        \<and> split_documents env text_splitter (reg @ fw) = Inr texts
        \<and> from_documents env texts (persist_directory self) = Inr vs
        \<and> self' = self\<lparr>vectorstore := Some vs\<rparr>
        \<and> w' = \<lparr>persisted = (persisted w)(persist_directory self \<mapsto> vs),
                 trace = trace w @
                   [DirectoryLoad ''./data/regulations'' ''**/*.pdf'',
                    DirectoryLoad ''./data/frameworks'' ''**/*.pdf'',
                    SplitDocuments 1000 200 (length (reg @ fw)),
                    FromDocuments (length texts) (persist_directory self),
                    Persist (persist_directory self)]\<rparr>)"
  by (auto simp: index_documents_def record_call_def text_splitter_def Let_def
      split: sum.splits)

lemma index_documents_regulations_raise:
  assumes "directory_load env ''./data/regulations'' ''**/*.pdf'' = Inl e"
  shows "index_documents env self w =
    (Inl e, record_call (DirectoryLoad ''./data/regulations'' ''**/*.pdf'') w)"
  using assms by (simp add: index_documents_def)

lemma index_documents_frameworks_raise:
  assumes "directory_load env ''./data/regulations'' ''**/*.pdf'' = Inr reg"
    and "directory_load env ''./data/frameworks'' ''**/*.pdf'' = Inl e"
  shows "index_documents env self w =
    (Inl e,
     record_call (DirectoryLoad ''./data/frameworks'' ''**/*.pdf'')
       (record_call (DirectoryLoad ''./data/regulations'' ''**/*.pdf'') w))"
  using assms by (simp add: index_documents_def)

lemma persisted_record_call [simp]: "persisted (record_call ev w) = persisted w"
  by (simp add: record_call_def)

lemma trace_record_call [simp]: "trace (record_call ev w) = trace w @ [ev]"
  by (simp add: record_call_def)

lemma example_load_regulations:
  "example_directory_load example_files ''./data/regulations'' ''**/*.pdf'' =
     Inr [\<lparr>page_content = ''Report Scope 1 emissions in tCO2e.'',
           metadata = [(''source'', ''csrd.pdf'')]\<rparr>]"
  by (simp add: example_directory_load_def example_files_def glob_selects_def)

lemma example_load_frameworks:
  "example_directory_load example_files ''./data/frameworks'' ''**/*.pdf'' =
     Inr [\<lparr>page_content = ''Report board diversity.'',
           metadata = [(''source'', ''blackrock.pdf'')]\<rparr>]"
  by (simp add: example_directory_load_def example_files_def glob_selects_def)

lemma example_load_notes_regulations:
  "example_directory_load example_files_and_notes ''./data/regulations'' ''**/*.pdf'' =
     Inr [\<lparr>page_content = ''Report Scope 1 emissions in tCO2e.'',
           metadata = [(''source'', ''csrd.pdf'')]\<rparr>]"
  by (simp add: example_directory_load_def example_files_and_notes_def glob_selects_def)

lemma example_load_notes_frameworks:
  "example_directory_load example_files_and_notes ''./data/frameworks'' ''**/*.pdf'' =
     Inr [\<lparr>page_content = ''Report board diversity.'',
           metadata = [(''source'', ''blackrock.pdf'')]\<rparr>]"
  by (simp add: example_directory_load_def example_files_and_notes_def glob_selects_def)

lemma windows_short:
  assumes "length s \<le> 800"
  shows "windows 1000 200 s = [s]"
  using assms by (simp add: windows_def)



lemma example_split_chunks:
  "example_split text_splitter
     [\<lparr>page_content = ''Report Scope 1 emissions in tCO2e.'', metadata = [(''source'', ''csrd.pdf'')]\<rparr>,
      \<lparr>page_content = ''Report board diversity.'', metadata = [(''source'', ''blackrock.pdf'')]\<rparr>] =
   Inr example_chunks"
  by (simp add: example_split_def text_splitter_def windows_short example_chunks_def)

lemma example_index_documents:
  "index_documents (example_env example_files) new_indexer empty_world =
     (Inr \<lparr>persist_directory = ''./chroma_db'', vectorstore = Some example_chunks\<rparr>,
      \<lparr>persisted = (\<lambda>p. None)(''./chroma_db'' \<mapsto> example_chunks),
       trace = [DirectoryLoad ''./data/regulations'' ''**/*.pdf'',
                DirectoryLoad ''./data/frameworks'' ''**/*.pdf'',
                SplitDocuments 1000 200 2,
                FromDocuments 2 ''./chroma_db'',
                Persist ''./chroma_db'']\<rparr>)"
  unfolding index_documents_Inr
  by (simp add: example_env_def example_load_regulations example_load_frameworks
      example_split_chunks new_indexer_def empty_world_def example_chunks_def)

subsection \<open>Chunking\<close>



subsection \<open>The corpus\<close>

text \<open>
  C10. Index construction has no parameter for the corpus. It asks the loader for the
  directory ./data/regulations and then for ./data/frameworks, both with the glob
  **/*.pdf, and for nothing else (the second is not reached when the first raises). Its
  outcome is therefore the same on two file systems on which these two requests give the
  same documents, whatever else the file systems hold.
\<close>

theorem index_documents_fixed_directories:
  assumes "directory_load env' ''./data/regulations'' ''**/*.pdf'' =
      directory_load env ''./data/regulations'' ''**/*.pdf''"
    and "directory_load env' ''./data/frameworks'' ''**/*.pdf'' =
      directory_load env ''./data/frameworks'' ''**/*.pdf''"
    and "split_documents env' = split_documents env"
    and "from_documents env' = from_documents env"
  shows "index_documents env' self w = index_documents env self w
    \<and> directory_loads (drop (length (trace w)) (trace (snd (index_documents env self w)))) =
        (case directory_load env ''./data/regulations'' ''**/*.pdf'' of
           Inl e \<Rightarrow> [(''./data/regulations'', ''**/*.pdf'')]
         | Inr reg \<Rightarrow>
             [(''./data/regulations'', ''**/*.pdf''), (''./data/frameworks'', ''**/*.pdf'')])"
proof -
  have "index_documents env' self w = index_documents env self w"
    using assms by (simp add: index_documents_def Let_def split: sum.splits)
  moreover have
    "directory_loads (drop (length (trace w)) (trace (snd (index_documents env self w)))) =
       (case directory_load env ''./data/regulations'' ''**/*.pdf'' of
          Inl e \<Rightarrow> [(''./data/regulations'', ''**/*.pdf'')]
        | Inr reg \<Rightarrow>
            [(''./data/regulations'', ''**/*.pdf''), (''./data/frameworks'', ''**/*.pdf'')])"
    by (simp add: index_documents_def directory_loads_def record_call_def Let_def
        split: sum.splits)
  ultimately show ?thesis
    by simp
qed

theorem index_documents_fixed_directories_witness:
  "index_documents (example_env example_files_and_notes) new_indexer empty_world =
     index_documents (example_env example_files) new_indexer empty_world
   \<and> fst (index_documents (example_env example_files_and_notes) new_indexer empty_world) =
       Inr \<lparr>persist_directory = ''./chroma_db'', vectorstore = Some example_chunks\<rparr>
   \<and> directory_loads
       (trace (snd (index_documents (example_env example_files) new_indexer empty_world))) =
       [(''./data/regulations'', ''**/*.pdf''), (''./data/frameworks'', ''**/*.pdf'')]"
proof -
  have h1: "directory_load (example_env example_files_and_notes) ''./data/regulations'' ''**/*.pdf'' =
      directory_load (example_env example_files) ''./data/regulations'' ''**/*.pdf''"
    by (simp add: example_env_def example_load_regulations example_load_notes_regulations)
  have h2: "directory_load (example_env example_files_and_notes) ''./data/frameworks'' ''**/*.pdf'' =
      directory_load (example_env example_files) ''./data/frameworks'' ''**/*.pdf''"
    by (simp add: example_env_def example_load_frameworks example_load_notes_frameworks)
  have h3: "split_documents (example_env example_files_and_notes) =
      split_documents (example_env example_files)"
    by (simp add: example_env_def)
  have h4: "from_documents (example_env example_files_and_notes) =
      from_documents (example_env example_files)"
    by (simp add: example_env_def)
  have h5: "directory_load (example_env example_files) ''./data/regulations'' ''**/*.pdf'' =
      Inr [\<lparr>page_content = ''Report Scope 1 emissions in tCO2e.'',
            metadata = [(''source'', ''csrd.pdf'')]\<rparr>]"
    by (simp add: example_env_def example_load_regulations)
  have h6: "trace (empty_world :: (document list) world) = []"
    by (simp add: empty_world_def)
  show ?thesis
    using index_documents_fixed_directories [OF h1 h2 h3 h4, of new_indexer empty_world]
    by (simp add: h5 h6 example_index_documents)
qed

subsection \<open>Failures of index construction\<close>

text \<open>
  C4 does not hold as stated: with one malformed file among the regulations the
  loader raises, and index construction raises with it. The other documents are not
  indexed, nothing is persisted, and the frameworks directory is not even read.
\<close>

theorem index_documents_parse_failure_counterexample:
  "fst (index_documents (example_env example_files_one_malformed) new_indexer empty_world) =
     Inl (ExternalError ''scan.pdf'')
   \<and> persisted
       (snd (index_documents (example_env example_files_one_malformed) new_indexer empty_world))
       ''./chroma_db'' = None
   \<and> trace
       (snd (index_documents (example_env example_files_one_malformed) new_indexer empty_world)) =
       [DirectoryLoad ''./data/regulations'' ''**/*.pdf'']"
proof -
  have "directory_load (example_env example_files_one_malformed)
      ''./data/regulations'' ''**/*.pdf'' = Inl (ExternalError ''scan.pdf'')"
    by (simp add: example_env_def example_directory_load_def example_files_one_malformed_def
        glob_selects_def)
  then show ?thesis
    by (simp add: index_documents_regulations_raise empty_world_def)
qed

text \<open>
  C4, amended. Index construction has no failure of its own and recovers from none. An
  exception raised by either loader reaches the caller as it is and ends the build with
  nothing persisted; when both directories give no document the build goes on, and its
  outcome is that of splitting and storing the empty list. Its result is the indexer with
  its store: no count of warnings is part of it.
\<close>

theorem index_documents_no_recovery:
  "(\<forall>e. directory_load env ''./data/regulations'' ''**/*.pdf'' = Inl e \<longrightarrow>
        fst (index_documents env self w) = Inl e
        \<and> persisted (snd (index_documents env self w)) = persisted w)
   \<and> (\<forall>e reg. directory_load env ''./data/regulations'' ''**/*.pdf'' = Inr reg
        \<and> directory_load env ''./data/frameworks'' ''**/*.pdf'' = Inl e \<longrightarrow>
        fst (index_documents env self w) = Inl e
        \<and> persisted (snd (index_documents env self w)) = persisted w)
   \<and> (directory_load env ''./data/regulations'' ''**/*.pdf'' = Inr []
        \<and> directory_load env ''./data/frameworks'' ''**/*.pdf'' = Inr [] \<longrightarrow>
        fst (index_documents env self w) =
          (case split_documents env text_splitter [] of
             Inl e \<Rightarrow> Inl e
           | Inr texts \<Rightarrow>
               (case from_documents env texts (persist_directory self) of
                  Inl e \<Rightarrow> Inl e
                | Inr vs \<Rightarrow> Inr (self\<lparr>vectorstore := Some vs\<rparr>))))"
proof (intro conjI allI impI)
  fix e
  assume "directory_load env ''./data/regulations'' ''**/*.pdf'' = Inl e"
  then show "fst (index_documents env self w) = Inl e"
    and "persisted (snd (index_documents env self w)) = persisted w"
    by (simp_all add: index_documents_regulations_raise)
next
  fix e reg
  assume "directory_load env ''./data/regulations'' ''**/*.pdf'' = Inr reg
    \<and> directory_load env ''./data/frameworks'' ''**/*.pdf'' = Inl e"
  then show "fst (index_documents env self w) = Inl e"
    and "persisted (snd (index_documents env self w)) = persisted w"
    by (simp_all add: index_documents_frameworks_raise)
next
  assume "directory_load env ''./data/regulations'' ''**/*.pdf'' = Inr []
    \<and> directory_load env ''./data/frameworks'' ''**/*.pdf'' = Inr []"
  then show "fst (index_documents env self w) =
      (case split_documents env text_splitter [] of
         Inl e \<Rightarrow> Inl e
       | Inr texts \<Rightarrow>
           (case from_documents env texts (persist_directory self) of
              Inl e \<Rightarrow> Inl e
            | Inr vs \<Rightarrow> Inr (self\<lparr>vectorstore := Some vs\<rparr>)))"
    by (simp add: index_documents_def Let_def split: sum.splits)
qed

theorem index_documents_no_recovery_witness:
  "directory_load (example_env example_files_one_malformed) ''./data/regulations'' ''**/*.pdf'' =
     Inl (ExternalError ''scan.pdf'')
   \<and> fst (index_documents (example_env example_files_one_malformed) new_indexer empty_world) =
       Inl (ExternalError ''scan.pdf'')
   \<and> directory_load (example_env example_files_framework_malformed) ''./data/regulations'' ''**/*.pdf'' =
       Inr [\<lparr>page_content = ''Report Scope 1 emissions in tCO2e.'',
             metadata = [(''source'', ''csrd.pdf'')]\<rparr>]
   \<and> directory_load (example_env example_files_framework_malformed) ''./data/frameworks'' ''**/*.pdf'' =
       Inl (ExternalError ''scan.pdf'')
   \<and> fst (index_documents (example_env example_files_framework_malformed) new_indexer empty_world) =
       Inl (ExternalError ''scan.pdf'')
   \<and> directory_load (example_env []) ''./data/regulations'' ''**/*.pdf'' = Inr []
   \<and> directory_load (example_env []) ''./data/frameworks'' ''**/*.pdf'' = Inr []
   \<and> fst (index_documents (example_env []) new_indexer empty_world) =
       Inr \<lparr>persist_directory = ''./chroma_db'', vectorstore = Some []\<rparr>"
proof -
  have a: "directory_load (example_env example_files_one_malformed)
      ''./data/regulations'' ''**/*.pdf'' = Inl (ExternalError ''scan.pdf'')"
    by (simp add: example_env_def example_directory_load_def example_files_one_malformed_def
        glob_selects_def)
  have b1: "directory_load (example_env example_files_framework_malformed)
      ''./data/regulations'' ''**/*.pdf'' =
      Inr [\<lparr>page_content = ''Report Scope 1 emissions in tCO2e.'',
            metadata = [(''source'', ''csrd.pdf'')]\<rparr>]"
    by (simp add: example_env_def example_directory_load_def
        example_files_framework_malformed_def glob_selects_def)
  have b2: "directory_load (example_env example_files_framework_malformed)
      ''./data/frameworks'' ''**/*.pdf'' = Inl (ExternalError ''scan.pdf'')"
    by (simp add: example_env_def example_directory_load_def
        example_files_framework_malformed_def glob_selects_def)
  have c: "directory_load (example_env []) dir glob = Inr []" for dir glob
    by (simp add: example_env_def example_directory_load_def)
  have d: "split_documents (example_env []) text_splitter [] = Inr []"
    by (simp add: example_env_def example_split_def)
  have e: "from_documents (example_env []) [] dir = Inr []" for dir
    by (simp add: example_env_def)
  show ?thesis
    using a b1 b2 c d e
      index_documents_no_recovery
        [of "example_env example_files_one_malformed" new_indexer empty_world]
      index_documents_no_recovery
        [of "example_env example_files_framework_malformed" new_indexer empty_world]
      index_documents_no_recovery [of "example_env []" new_indexer empty_world]
    by (simp add: new_indexer_def)
qed

subsection \<open>Loading or building the store\<close>







subsection \<open>Searching\<close>






end
